theory Spec2Isabelle
  imports Complex_Main
begin

section \<open>Characters and strings\<close>

text \<open>
  A Go string is a sequence of bytes; it is modelled as a \<^typ>\<open>string\<close>. The engine
  only distinguishes ASCII characters: the regular expression of
  \<open>validateArithmeticExpression\<close> lets no byte above 127 through, so the runes that
  \<open>range\<close> decodes in \<open>tokenizeExpression\<close> are single bytes on every input that is
  tokenized. \<open>unicode.IsDigit\<close> on such a rune is the test for \<open>0\<close> .. \<open>9\<close>.
\<close>

definition isDigit :: "char \<Rightarrow> bool" where
  "isDigit c = (c \<in> set ''0123456789'')"

definition digitVal :: "char \<Rightarrow> nat" where
  "digitVal c = of_char c - 48"

definition TAB :: char where "TAB = CHR 0x09"
definition NL :: char where "NL = CHR 0x0A"
definition FF :: char where "FF = CHR 0x0C"
definition CR :: char where "CR = CHR 0x0D"

section \<open>The tokenizer\<close>

text \<open>
  \<open>tokenizeExpression\<close> keeps three variables across its loop, \<open>tokens\<close>,
  \<open>number\<close> (the \<open>strings.Builder\<close>) and \<open>prevToken\<close>, and prints a line on the
  standard output for a character it does not know. The record holds the three
  variables and the lines printed so far.
\<close>

record TokState =
  tokens :: "string list"
  number :: string
  prevToken :: string
  printed :: "string list"

definition flushNumber :: "TokState \<Rightarrow> TokState" where
  "flushNumber s =
     (if length (number s) > 0
      then s\<lparr>tokens := tokens s @ [number s], number := []\<rparr>
      else s)"

definition isOperatorChar :: "char \<Rightarrow> bool" where
  "isOperatorChar ch = (ch = CHR ''+'' \<or> ch = CHR ''-'' \<or> ch = CHR ''*'' \<or> ch = CHR ''/'')"

text \<open>
  The test of line 155 that folds a \<open>-\<close> into the pending number. \<open>prevToken\<close> is
  assigned at operator and parenthesis tokens only (lines 163 and 181), never when a
  number is appended.
\<close>

definition unaryContext :: "nat \<Rightarrow> string \<Rightarrow> bool" where
  "unaryContext i prev =
     (i = 0 \<or> prev = ''('' \<or> prev = '''' \<or> prev = ''+'' \<or> prev = ''-''
      \<or> prev = ''*'' \<or> prev = ''/'')"

text \<open>
  The implicit multiplication of lines 173-178. Every token appended is a non-empty
  string (lemma \<open>tokLoop_tokens_nonempty\<close> below), so the index
  \<open>len(lastToken)-1\<close> is in range.
\<close>

definition implicitMul :: "char \<Rightarrow> TokState \<Rightarrow> TokState" where
  "implicitMul ch s =
     (if ch = CHR ''('' \<and> length (tokens s) > 0
      then (let lastToken = last (tokens s) in
            if isDigit (last lastToken) \<or> lastToken = '')''
            then s\<lparr>tokens := tokens s @ [''*'']\<rparr>
            else s)
      else s)"

text \<open>One iteration of the loop of lines 143-187, at byte index \<open>i\<close> on character \<open>ch\<close>.\<close>

definition tokStep :: "nat \<Rightarrow> char \<Rightarrow> TokState \<Rightarrow> TokState" where
  "tokStep i ch s =
     (if isDigit ch \<or> ch = CHR ''.'' then s\<lparr>number := number s @ [ch]\<rparr>
      else if isOperatorChar ch then
        (let s1 = flushNumber s in
         if ch = CHR ''-'' \<and> unaryContext i (prevToken s1)
         then s1\<lparr>number := number s1 @ [ch]\<rparr>
         else s1\<lparr>tokens := tokens s1 @ [[ch]], prevToken := [ch]\<rparr>)
      else if ch = CHR ''('' \<or> ch = CHR '')'' then
        (let s2 = implicitMul ch (flushNumber s) in
         s2\<lparr>tokens := tokens s2 @ [[ch]], prevToken := [ch]\<rparr>)
      else if ch = CHR '' '' then s
      else s\<lparr>printed := printed s @ [''Unexpected character: '' @ [ch]]\<rparr>)"

fun tokLoop :: "nat \<Rightarrow> string \<Rightarrow> TokState \<Rightarrow> TokState" where
  "tokLoop i [] s = s"
| "tokLoop i (ch # rest) s = tokLoop (Suc i) rest (tokStep i ch s)"

definition tokInit :: TokState where
  "tokInit = \<lparr>tokens = [], number = [], prevToken = [], printed = []\<rparr>"

definition tokenizeRun :: "string \<Rightarrow> TokState" where
  "tokenizeRun expression = flushNumber (tokLoop 0 expression tokInit)"

definition tokenizeExpression :: "string \<Rightarrow> string list" where
  "tokenizeExpression expression = tokens (tokenizeRun expression)"


section \<open>Numbers\<close>

text \<open>
  The program computes in \<open>float64\<close>. The model computes in exact rational numbers:
  \<open>strconv.ParseFloat\<close> returns the exact value of the decimal literal, and
  \<open>+\<close>, \<open>-\<close>, \<open>*\<close>, \<open>/\<close> are exact. The two agree wherever every value that occurs is
  a binary64 number and no operation rounds, as on the small integers of the examples
  below; rounding error, overflow to an infinity and the sign of a zero are outside
  the model.

  \<open>ParseFloat\<close> is modelled on the strings a token can be: an optional sign, digits
  with at most one radix point, at least one digit, and nothing after them. The
  tokenizer builds its tokens from digits, \<open>.\<close>, the four operators and the two
  parentheses only, so exponents, hexadecimal mantissas, underscores, \<open>inf\<close> and
  \<open>nan\<close> (all of which need a letter or an underscore) cannot reach it.
\<close>

definition decNat :: "string \<Rightarrow> nat" where
  "decNat ds = foldl (\<lambda>acc d. 10 * acc + digitVal d) 0 ds"

definition ParseFloat :: "string \<Rightarrow> rat option" where
  "ParseFloat s =
     (let neg = (s \<noteq> [] \<and> hd s = CHR ''-'');
          body = (if s \<noteq> [] \<and> (hd s = CHR ''+'' \<or> hd s = CHR ''-'') then tl s else s);
          ip = takeWhile isDigit body;
          r = dropWhile isDigit body;
          sawdot = (r \<noteq> [] \<and> hd r = CHR ''.'');
          fp = (if sawdot then takeWhile isDigit (tl r) else []);
          rest = (if sawdot then dropWhile isDigit (tl r) else r)
      in if rest \<noteq> [] \<or> (ip = [] \<and> fp = []) then None
         else Some ((if neg then - 1 else 1) * (of_nat (decNat (ip @ fp)) / 10 ^ length fp)))"

text \<open>\<open>math.Round\<close>: the nearest integer, halves away from zero.\<close>

definition mathRound :: "rat \<Rightarrow> rat" where
  "mathRound x = (if x < 0 then - of_int \<lfloor>- x + 1 / 2\<rfloor> else of_int \<lfloor>x + 1 / 2\<rfloor>)"

definition roundFloat :: "rat \<Rightarrow> nat \<Rightarrow> rat" where
  "roundFloat val precision = (let ratio = 10 ^ precision in mathRound (val * ratio) / ratio)"

function natDigits :: "nat \<Rightarrow> string" where
  "natDigits n = (if n < 10 then [char_of (48 + n)] else natDigits (n div 10) @ [char_of (48 + n mod 10)])"
  by pat_completeness auto
termination
  by (relation "measure id") auto

fun fracDigits :: "nat \<Rightarrow> rat \<Rightarrow> string" where
  "fracDigits 0 f = []"
| "fracDigits (Suc k) f =
     (if f = 0 then []
      else (let d = nat \<lfloor>f * 10\<rfloor> in char_of (48 + d) # fracDigits k (f * 10 - of_nat d)))"

text \<open>
  \<open>strconv.FormatFloat(result, 'f', -1, 64)\<close>: the shortest decimal that reads back as
  \<open>result\<close>, without exponent. On a value \<open>roundFloat\<close> returns, a multiple of
  \<open>1/10000\<close>, that is its decimal expansion without trailing zeros; the expansion is
  cut after 17 fractional digits, more than such a value has.
\<close>

definition FormatFloat :: "rat \<Rightarrow> string" where
  "FormatFloat q =
     (let a = \<bar>q\<bar>; ip = nat \<lfloor>a\<rfloor>; f = a - of_nat ip
      in (if q < 0 then ''-'' else []) @ natDigits ip
         @ (if f = 0 then [] else ''.'' @ fracDigits 17 f))"

section \<open>The expression tree\<close>

text \<open>The struct \<open>Node\<close>; a \<open>*Node\<close> is a \<^typ>\<open>'a option\<close>, \<open>nil\<close> is \<open>None\<close>.\<close>

datatype Node = Node (Value: string) (Left: "Node option") (Right: "Node option")

definition precedence :: "string \<rightharpoonup> int" where
  "precedence = [''+'' \<mapsto> 1, ''-'' \<mapsto> 1, ''*'' \<mapsto> 2, ''/'' \<mapsto> 2]"

text \<open>
  The loop of lines 239-255 over \<open>i = start .. end\<close>; its variables are the triple
  \<open>(minPrecedence, opIndex, parens)\<close>.
\<close>

definition scanStep :: "string list \<Rightarrow> int \<Rightarrow> int \<times> int \<times> int \<Rightarrow> int \<times> int \<times> int" where
  "scanStep toks i st =
     (case st of (minPrecedence, opIndex, parens) \<Rightarrow>
        if toks ! nat i = ''('' then (minPrecedence, opIndex, parens + 1)
        else if toks ! nat i = '')'' then (minPrecedence, opIndex, parens - 1)
        else if parens = 0 then
          (case precedence (toks ! nat i) of
             None \<Rightarrow> st
           | Some prec \<Rightarrow> if prec \<le> minPrecedence then (prec, i, parens) else st)
        else st)"

definition findOp :: "string list \<Rightarrow> int \<Rightarrow> int \<Rightarrow> int" where
  "findOp toks start end' = fst (snd (fold (scanStep toks) [start..end'] (3, - 1, 0)))"

lemma scanStep_opIndex:
  "fst (snd (scanStep toks i st)) = i \<or> fst (snd (scanStep toks i st)) = fst (snd st)"
  by (cases st) (simp add: scanStep_def split: option.split)

lemma fold_scanStep_opIndex:
  "fst (snd (fold (scanStep toks) xs st)) \<in> insert (fst (snd st)) (set xs)"
proof (induction xs arbitrary: st)
  case Nil
  show ?case by simp
next
  case (Cons x xs)
  have "fst (snd (fold (scanStep toks) xs (scanStep toks x st)))
          \<in> insert (fst (snd (scanStep toks x st))) (set xs)"
    by (rule Cons.IH)
  with scanStep_opIndex [of toks x st] show ?case by auto
qed

lemma findOp_range:
  assumes "findOp toks start end' \<noteq> - 1"
  shows "start \<le> findOp toks start end' \<and> findOp toks start end' \<le> end'"
proof -
  have "findOp toks start end' \<in> insert (- 1) (set [start..end'])"
    unfolding findOp_def using fold_scanStep_opIndex [of toks "[start..end']" "(3, - 1, 0)"] by simp
  with assms show ?thesis by auto
qed

text \<open>
  The closure \<open>build\<close> of lines 208-267 on the index range \<open>[start, end]\<close>.
  \<open>buildTree\<close> calls it on \<open>[0, len(tokens)-1]\<close>, and every recursive call stays
  inside the range of its caller, so each read \<open>tokens[i]\<close> is in range.
\<close>

function build :: "string list \<Rightarrow> int \<Rightarrow> int \<Rightarrow> Node option" where
  "build toks start end' =
     (if start > end' then None
      else if start = end' \<and> ParseFloat (toks ! nat start) \<noteq> None
        then Some (Node (toks ! nat start) None None)
      else if toks ! nat start = ''-'' \<and> start + 1 \<le> end'
              \<and> ParseFloat (toks ! nat (start + 1)) \<noteq> None
        then Some (Node (toks ! nat start @ toks ! nat (start + 1)) None None)
      else if toks ! nat start = ''('' \<and> toks ! nat end' = '')''
        then build toks (start + 1) (end' - 1)
      else if findOp toks start end' \<noteq> - 1
        then Some (Node (toks ! nat (findOp toks start end'))
                     (build toks start (findOp toks start end' - 1))
                     (build toks (findOp toks start end' + 1) end'))
      else None)"
  by pat_completeness auto
termination
proof (relation "measure (\<lambda>(toks, start, end'). nat (end' + 1 - start))")
  show "wf (measure (\<lambda>(toks, start, end'). nat (end' + 1 - start)))" by simp
next
  fix toks :: "string list" and start end' :: int
  assume "\<not> end' < start"
  then show "((toks, start + 1, end' - 1), (toks, start, end'))
               \<in> measure (\<lambda>(toks, start, end'). nat (end' + 1 - start))"
    by simp
next
  fix toks :: "string list" and start end' :: int
  assume "\<not> end' < start" and "findOp toks start end' \<noteq> - 1"
  with findOp_range [of toks start end']
  show "((toks, start, findOp toks start end' - 1), (toks, start, end'))
               \<in> measure (\<lambda>(toks, start, end'). nat (end' + 1 - start))"
    by simp
next
  fix toks :: "string list" and start end' :: int
  assume "\<not> end' < start" and "findOp toks start end' \<noteq> - 1"
  with findOp_range [of toks start end']
  show "((toks, findOp toks start end' + 1, end'), (toks, start, end'))
               \<in> measure (\<lambda>(toks, start, end'). nat (end' + 1 - start))"
    by simp
qed

definition buildTree :: "string list \<Rightarrow> Node option" where
  "buildTree toks = (if length toks = 0 then None else build toks 0 (int (length toks) - 1))"

section \<open>The evaluator\<close>

text \<open>The three \<open>panic\<close> calls of \<open>evaluate\<close>, with the string each one appends.\<close>

datatype error = InvalidNumber string | DivisionByZero | UnknownOperator string

fun evaluate :: "Node option \<Rightarrow> error + rat" where
  "evaluate None = Inr 0"
| "evaluate (Some (Node v l r)) =
     (if l = None \<and> r = None then
        (case ParseFloat v of None \<Rightarrow> Inl (InvalidNumber v) | Some num \<Rightarrow> Inr num)
      else if l = None \<and> v = ''-'' then
        (case evaluate r of Inl e \<Rightarrow> Inl e | Inr x \<Rightarrow> Inr (- x))
      else
        (case evaluate l of
           Inl e \<Rightarrow> Inl e
         | Inr leftVal \<Rightarrow>
             (case evaluate r of
                Inl e \<Rightarrow> Inl e
              | Inr rightVal \<Rightarrow>
                  if v = ''+'' then Inr (leftVal + rightVal)
                  else if v = ''-'' then Inr (leftVal - rightVal)
                  else if v = ''*'' then Inr (leftVal * rightVal)
                  else if v = ''/'' then
                    (if rightVal = 0 then Inl DivisionByZero else Inr (leftVal / rightVal))
                  else Inl (UnknownOperator v))))"

section \<open>The validator\<close>

subsection \<open>The Go scanner on the validator's alphabet\<close>

text \<open>
  \<open>validateArithmeticExpression\<close> hands the string to \<open>parser.ParseExpr\<close> of the Go
  standard library, which is not part of the repository. The model below follows
  \<open>go/scanner\<close> and \<open>go/parser\<close> on the only strings \<open>ParseExpr\<close> is called with:
  those the regular expression \<open>^[0-9\+\-\*/\(\)\s.]+$\<close> matches. On these the scanner
  produces the tokens of \<open>gotoken\<close> (Go's \<open>INT\<close> and \<open>FLOAT\<close> are \<open>INT_LIT\<close> and
  \<open>FLOAT_LIT\<close> here); the literal's text is dropped, since
  \<open>ParseExpr\<close>'s syntax tree is discarded and only \<open>err == nil\<close> is used. The
  scanner and the parser go on after an error; the model stops with \<open>None\<close> at the
  first one, which gives the same \<open>err == nil\<close>. Any other character ends the
  scan with \<open>None\<close>; no such character reaches \<open>ParseExpr\<close>.
\<close>

datatype gotoken =
  INT_LIT | FLOAT_LIT | ADD | SUB | MUL | QUO | INC | DEC | LPAREN | RPAREN | PERIOD | ELLIPSIS | SEMICOLON

text \<open>
  \<open>scanNumber\<close> on a text that starts with a digit, or with \<open>.\<close> and a digit: the
  token, whether the literal is well formed, and the text after it. Without letters
  there is no exponent, no base prefix other than the leading \<open>0\<close> of an old-style
  octal literal, and the only error is a digit \<open>8\<close> or \<open>9\<close> in such an octal
  integer.
\<close>

definition scanNumber :: "string \<Rightarrow> gotoken \<times> bool \<times> string" where
  "scanNumber s =
     (let ip = takeWhile isDigit s; r = dropWhile isDigit s in
      if r \<noteq> [] \<and> hd r = CHR ''.'' then (FLOAT_LIT, True, dropWhile isDigit (tl r))
      else (INT_LIT,
            \<not> (ip \<noteq> [] \<and> hd ip = CHR ''0''
               \<and> list_ex (\<lambda>d. d = CHR ''8'' \<or> d = CHR ''9'') (tl ip)),
            r))"

text \<open>
  The text of a \<open>/* */\<close> comment after its opening: whether it holds a newline, and
  the text after the closing \<open>*/\<close>; \<open>None\<close> when the comment is not terminated.
\<close>

fun skipBlockComment :: "string \<Rightarrow> (bool \<times> string) option" where
  "skipBlockComment [] = None"
| "skipBlockComment [c] = None"
| "skipBlockComment (c # d # cs) =
     (if c = CHR ''*'' \<and> d = CHR ''/'' then Some (False, cs)
      else (case skipBlockComment (d # cs) of
              None \<Rightarrow> None
            | Some (nl, rest) \<Rightarrow> Some (nl \<or> c = NL, rest)))"

definition consTok :: "gotoken \<Rightarrow> gotoken list option \<Rightarrow> gotoken list option" where
  "consTok t r = map_option ((#) t) r"

lemma scanNumber_rest:
  assumes "isDigit ch \<or> ch = CHR ''.''"
  shows "length (snd (snd (scanNumber (ch # cs)))) \<le> length cs"
proof -
  have a: "length (dropWhile isDigit cs) \<le> length cs" by (rule length_dropWhile_le)
  have b: "length (dropWhile isDigit (tl (dropWhile isDigit cs))) \<le> length cs"
    using length_dropWhile_le [of isDigit "tl (dropWhile isDigit cs)"] a by simp
  show ?thesis
  proof (cases "isDigit ch")
    case True
    with a b show ?thesis by (simp add: scanNumber_def Let_def)
  next
    case False
    with assms have "ch = CHR ''.''" by simp
    with False a show ?thesis by (simp add: scanNumber_def Let_def)
  qed
qed

lemma skipBlockComment_rest: "skipBlockComment s = Some (nl, rest) \<Longrightarrow> length rest < length s"
proof (induction s arbitrary: nl rule: skipBlockComment.induct)
  case 1
  then show ?case by simp
next
  case (2 c)
  then show ?case by simp
next
  case (3 c d cs)
  show ?case
  proof (cases "c = CHR ''*'' \<and> d = CHR ''/''")
    case True
    with "3.prems" show ?thesis by simp
  next
    case False
    with "3.prems" obtain nl' where "skipBlockComment (d # cs) = Some (nl', rest)"
      by (simp split: option.splits prod.splits)
    with "3.IH" [OF False] have "length rest < length (d # cs)" by blast
    then show ?thesis by simp
  qed
qed

text \<open>
  \<open>Scanner.Scan\<close>, called until the end of the text, with the scanner's flag
  \<open>insertSemi\<close>: after a literal, \<open>)\<close>, \<open>++\<close> or \<open>--\<close> a newline or the end of
  the text is the token \<open>;\<close>. Comments are skipped as white space is; one that holds
  a newline counts as a newline.
\<close>

function goScan :: "bool \<Rightarrow> string \<Rightarrow> gotoken list option" where
  "goScan insertSemi [] = Some (if insertSemi then [SEMICOLON] else [])"
| "goScan insertSemi (ch # cs) =
     (if ch = CHR '' '' \<or> ch = TAB \<or> ch = CR then goScan insertSemi cs
      else if ch = NL then
        (if insertSemi then consTok SEMICOLON (goScan False cs) else goScan False cs)
      else if isDigit ch \<or> (ch = CHR ''.'' \<and> cs \<noteq> [] \<and> isDigit (hd cs)) then
        (if fst (snd (scanNumber (ch # cs)))
         then consTok (fst (scanNumber (ch # cs))) (goScan True (snd (snd (scanNumber (ch # cs)))))
         else None)
      else if ch = CHR ''.'' then
        (if take 2 cs = ''..'' then consTok ELLIPSIS (goScan False (drop 2 cs))
         else consTok PERIOD (goScan False cs))
      else if ch = CHR ''('' then consTok LPAREN (goScan False cs)
      else if ch = CHR '')'' then consTok RPAREN (goScan True cs)
      else if ch = CHR ''+'' then
        (if cs \<noteq> [] \<and> hd cs = CHR ''+'' then consTok INC (goScan True (tl cs))
         else consTok ADD (goScan False cs))
      else if ch = CHR ''-'' then
        (if cs \<noteq> [] \<and> hd cs = CHR ''-'' then consTok DEC (goScan True (tl cs))
         else consTok SUB (goScan False cs))
      else if ch = CHR ''*'' then consTok MUL (goScan False cs)
      else if ch = CHR ''/'' then
        (if cs \<noteq> [] \<and> hd cs = CHR ''/''
         then goScan insertSemi (dropWhile (\<lambda>c. c \<noteq> NL) (tl cs))
         else if cs \<noteq> [] \<and> hd cs = CHR ''*'' then
           (case skipBlockComment (tl cs) of
              None \<Rightarrow> None
            | Some (nl, rest) \<Rightarrow>
                if insertSemi \<and> nl then consTok SEMICOLON (goScan False rest)
                else goScan insertSemi rest)
         else consTok QUO (goScan False cs))
      else None)"
  by pat_completeness auto
termination
  apply (relation "measure (\<lambda>(insertSemi, s). length s)")
  apply simp_all
  subgoal for ch cs
    using scanNumber_rest [of ch cs] by auto
  subgoal for ch cs
    using length_dropWhile_le [of "\<lambda>c. c \<noteq> NL" "tl cs"] by simp
  subgoal for insertSemi ch cs x2 x y
    using skipBlockComment_rest [of "tl cs" True y] by auto
  subgoal for insertSemi ch cs x2 x y
    using skipBlockComment_rest [of "tl cs" x y] by auto
  done

subsection \<open>The Go expression parser on these tokens\<close>

text \<open>
  The functions of \<open>go/parser\<close> that \<open>ParseExpr\<close> runs through, by their names. Each
  returns the tokens left after what it parsed, \<open>None\<close> after a syntax error; the
  end of the list is the token \<open>EOF\<close>. Without identifiers, brackets and braces, a
  \<open>.\<close> is always an error (a selector and a type assertion need an identifier or a
  type), and an operand is a literal or a parenthesized expression.

  The tests \<open>length rest \<le> length ...\<close> before a call on the tokens another call left
  are always true (lemma \<open>parse_rest_length\<close>): a parser never returns more tokens
  than it was given. They stand in the definition so that it is seen to terminate.
\<close>

definition tokPrec :: "gotoken list \<Rightarrow> nat" where
  "tokPrec toks =
     (if toks = [] then 0
      else if hd toks = ADD \<or> hd toks = SUB then 4
      else if hd toks = MUL \<or> hd toks = QUO then 5
      else 0)"

definition expect :: "gotoken \<Rightarrow> gotoken list \<Rightarrow> gotoken list option" where
  "expect t toks = (if toks \<noteq> [] \<and> hd toks = t then Some (tl toks) else None)"

function parseBinaryExpr :: "gotoken list \<Rightarrow> nat \<Rightarrow> gotoken list option"
  and parseBinaryRest :: "gotoken list \<Rightarrow> nat \<Rightarrow> gotoken list option"
  and parseUnaryExpr :: "gotoken list \<Rightarrow> gotoken list option"
  and parsePrimaryExpr :: "gotoken list \<Rightarrow> gotoken list option"
  and parsePrimaryRest :: "gotoken list \<Rightarrow> gotoken list option"
  and parseOperand :: "gotoken list \<Rightarrow> gotoken list option"
  and parseCallOrConversion :: "gotoken list \<Rightarrow> gotoken list option"
where
  "parseBinaryExpr toks prec1 =
     (case parseUnaryExpr toks of
        None \<Rightarrow> None
      | Some rest \<Rightarrow> if length rest \<le> length toks then parseBinaryRest rest prec1 else None)"
| "parseBinaryRest toks prec1 =
     (if toks = [] \<or> tokPrec toks < prec1 then Some toks
      else (case parseBinaryExpr (tl toks) (tokPrec toks + 1) of
              None \<Rightarrow> None
            | Some rest \<Rightarrow>
                if length rest \<le> length (tl toks) then parseBinaryRest rest prec1 else None))"
| "parseUnaryExpr toks =
     (if toks \<noteq> [] \<and> (hd toks = ADD \<or> hd toks = SUB \<or> hd toks = MUL)
      then parseUnaryExpr (tl toks)
      else parsePrimaryExpr toks)"
| "parsePrimaryExpr toks =
     (case parseOperand toks of
        None \<Rightarrow> None
      | Some rest \<Rightarrow> if length rest \<le> length toks then parsePrimaryRest rest else None)"
| "parsePrimaryRest toks =
     (if toks \<noteq> [] \<and> hd toks = PERIOD then None
      else if toks \<noteq> [] \<and> hd toks = LPAREN then
        (case parseCallOrConversion (tl toks) of
           None \<Rightarrow> None
         | Some rest \<Rightarrow>
             if length rest \<le> length (tl toks) then parsePrimaryRest rest else None)
      else Some toks)"
| "parseOperand toks =
     (if toks \<noteq> [] \<and> (hd toks = INT_LIT \<or> hd toks = FLOAT_LIT) then Some (tl toks)
      else if toks \<noteq> [] \<and> hd toks = LPAREN then
        (case parseBinaryExpr (tl toks) 1 of
           None \<Rightarrow> None
         | Some rest \<Rightarrow> expect RPAREN rest)
      else None)"
| "parseCallOrConversion toks =
     (if toks \<noteq> [] \<and> hd toks = RPAREN then Some (tl toks)
      else (case parseBinaryExpr toks 1 of
              None \<Rightarrow> None
            | Some rest \<Rightarrow>
                expect RPAREN (if rest \<noteq> [] \<and> hd rest = ELLIPSIS then tl rest else rest)))"
  by pat_completeness auto
termination
proof (relation "measure
    (case_sum
      (case_sum (\<lambda>(toks, prec1). 8 * length toks + 6)
         (case_sum (\<lambda>(toks, prec1). 8 * length toks + 5) (\<lambda>toks. 8 * length toks + 4)))
      (case_sum
         (case_sum (\<lambda>toks. 8 * length toks + 3) (\<lambda>toks. 8 * length toks + 1))
         (case_sum (\<lambda>toks. 8 * length toks + 2) (\<lambda>toks. 8 * length toks + 7))))",
    goal_cases)
  case (5 toks prec1 x2)
  then have "toks \<noteq> []" and "length x2 \<le> length toks - 1" by simp_all
  then show ?case by (cases toks) simp_all
next
  case (11 toks x2)
  then have "toks \<noteq> []" and "length x2 \<le> length toks - 1" by simp_all
  then show ?case by (cases toks) simp_all
qed (auto simp: neq_Nil_conv)

declare parseBinaryExpr.simps [simp del] parseBinaryRest.simps [simp del]
  parseUnaryExpr.simps [simp del] parsePrimaryExpr.simps [simp del]
  parsePrimaryRest.simps [simp del] parseOperand.simps [simp del]
  parseCallOrConversion.simps [simp del]

lemma expect_length: "expect t toks = Some r \<Longrightarrow> length r \<le> length toks"
  by (auto simp: expect_def split: if_splits)

lemma parse_rest_length:
  shows "\<And>r. parseBinaryExpr toks1 p1 = Some r \<Longrightarrow> length r \<le> length toks1"
    and "\<And>r. parseBinaryRest toks2 p2 = Some r \<Longrightarrow> length r \<le> length toks2"
    and "\<And>r. parseUnaryExpr toks3 = Some r \<Longrightarrow> length r \<le> length toks3"
    and "\<And>r. parsePrimaryExpr toks4 = Some r \<Longrightarrow> length r \<le> length toks4"
    and "\<And>r. parsePrimaryRest toks5 = Some r \<Longrightarrow> length r \<le> length toks5"
    and "\<And>r. parseOperand toks6 = Some r \<Longrightarrow> length r \<le> length toks6"
    and "\<And>r. parseCallOrConversion toks7 = Some r \<Longrightarrow> length r \<le> length toks7"
proof (induction toks1 p1 and toks2 p2 and toks3 and toks4 and toks5 and toks6 and toks7
    rule: parseBinaryExpr_parseBinaryRest_parseUnaryExpr_parsePrimaryExpr_parsePrimaryRest_parseOperand_parseCallOrConversion.induct)
  case (1 toks prec1)
  from "1.prems" obtain x where x: "parseUnaryExpr toks = Some x" "length x \<le> length toks"
      "parseBinaryRest x prec1 = Some r"
    by (subst (asm) parseBinaryExpr.simps) (auto split: option.splits if_splits)
  from "1.IH"(2) [OF x(1) x(2) x(3)] x(2) show ?case by simp
next
  case (2 toks prec1)
  show ?case
  proof (cases "toks = [] \<or> tokPrec toks < prec1")
    case True
    with "2.prems" show ?thesis by (subst (asm) parseBinaryRest.simps) simp
  next
    case False
    with "2.prems" obtain x where x: "parseBinaryExpr (tl toks) (tokPrec toks + 1) = Some x"
        "length x \<le> length (tl toks)" "parseBinaryRest x prec1 = Some r"
      by (subst (asm) parseBinaryRest.simps) (auto split: option.splits if_splits)
    from "2.IH"(2) [OF False x(1) x(2) x(3)] x(2) show ?thesis by simp
  qed
next
  case (3 toks)
  show ?case
  proof (cases "toks \<noteq> [] \<and> (hd toks = ADD \<or> hd toks = SUB \<or> hd toks = MUL)")
    case True
    with "3.prems" have "parseUnaryExpr (tl toks) = Some r"
      by (subst (asm) parseUnaryExpr.simps) simp
    from "3.IH"(1) [OF True this] show ?thesis by simp
  next
    case False
    with "3.prems" have "parsePrimaryExpr toks = Some r"
      by (subst (asm) parseUnaryExpr.simps) simp
    from "3.IH"(2) [OF False this] show ?thesis .
  qed
next
  case (4 toks)
  from "4.prems" obtain x where x: "parseOperand toks = Some x" "length x \<le> length toks"
      "parsePrimaryRest x = Some r"
    by (subst (asm) parsePrimaryExpr.simps) (auto split: option.splits if_splits)
  from "4.IH"(2) [OF x(1) x(2) x(3)] x(2) show ?case by simp
next
  case (5 toks)
  show ?case
  proof (cases "toks \<noteq> [] \<and> hd toks = PERIOD")
    case True
    with "5.prems" show ?thesis by (subst (asm) parsePrimaryRest.simps) simp
  next
    case np: False
    show ?thesis
    proof (cases "toks \<noteq> [] \<and> hd toks = LPAREN")
      case True
      with np "5.prems" obtain x where x: "parseCallOrConversion (tl toks) = Some x"
          "length x \<le> length (tl toks)" "parsePrimaryRest x = Some r"
        by (subst (asm) parsePrimaryRest.simps) (auto split: option.splits if_splits)
      from "5.IH"(2) [OF np True x(1) x(2) x(3)] x(2) show ?thesis by simp
    next
      case False
      with np "5.prems" show ?thesis by (subst (asm) parsePrimaryRest.simps) auto
    qed
  qed
next
  case (6 toks)
  show ?case
  proof (cases "toks \<noteq> [] \<and> (hd toks = INT_LIT \<or> hd toks = FLOAT_LIT)")
    case True
    with "6.prems" show ?thesis by (subst (asm) parseOperand.simps) auto
  next
    case nl: False
    show ?thesis
    proof (cases "toks \<noteq> [] \<and> hd toks = LPAREN")
      case True
      with nl "6.prems" obtain x where x: "parseBinaryExpr (tl toks) 1 = Some x"
          "expect RPAREN x = Some r"
        by (subst (asm) parseOperand.simps) (auto split: option.splits if_splits)
      from "6.IH" [OF nl True x(1)] expect_length [OF x(2)] show ?thesis by simp
    next
      case False
      with nl "6.prems" show ?thesis by (subst (asm) parseOperand.simps) auto
    qed
  qed
next
  case (7 toks)
  show ?case
  proof (cases "toks \<noteq> [] \<and> hd toks = RPAREN")
    case True
    with "7.prems" show ?thesis by (subst (asm) parseCallOrConversion.simps) auto
  next
    case False
    with "7.prems" obtain x where x: "parseBinaryExpr toks 1 = Some x"
        "expect RPAREN (if x \<noteq> [] \<and> hd x = ELLIPSIS then tl x else x) = Some r"
      by (subst (asm) parseCallOrConversion.simps) (auto split: option.splits if_splits)
    from "7.IH" [OF False x(1)] expect_length [OF x(2)] show ?thesis
      by (auto split: if_splits)
  qed
qed

text \<open>
  \<open>ParseExpr\<close>: parse one expression, take the \<open>;\<close> that the scanner put at the end
  of the text if there is one, and expect \<open>EOF\<close>. The result is \<open>err == nil\<close>.
\<close>

definition goParseExpr :: "string \<Rightarrow> bool" where
  "goParseExpr x =
     (case goScan False x of
        None \<Rightarrow> False
      | Some toks \<Rightarrow>
          (case parseBinaryExpr toks 1 of
             None \<Rightarrow> False
           | Some rest \<Rightarrow> (if rest \<noteq> [] \<and> hd rest = SEMICOLON then tl rest else rest) = []))"

subsection \<open>validateArithmeticExpression\<close>

text \<open>
  The character class of the regular expression: the digits, the four operators, the
  parentheses, \<open>.\<close>, and \<open>\s\<close>, which in Go's syntax is the space, the tab, the
  newline, the form feed and the carriage return. \<open>^[...]+$\<close> matches a non-empty
  string of such characters.
\<close>

definition reClass :: "char \<Rightarrow> bool" where
  "reClass c =
     (isDigit c \<or> c \<in> set ''+-*/().'' \<or> c = CHR '' '' \<or> c = TAB \<or> c = NL \<or> c = FF \<or> c = CR)"

definition reMatchString :: "string \<Rightarrow> bool" where
  "reMatchString s = (s \<noteq> [] \<and> list_all reClass s)"

definition validateArithmeticExpression :: "string \<Rightarrow> bool" where
  "validateArithmeticExpression Expr =
     (let Expr' = filter (\<lambda>c. c \<noteq> CHR '' '') Expr in
      if \<not> reMatchString Expr' then False else goParseExpr Expr')"

section \<open>The entry point\<close>

text \<open>
  \<open>performArithmeticCalculation\<close> returns its pair, or ends in the panic of
  \<open>evaluate\<close>: it has no \<open>recover\<close>. The tokenizer is given \<open>Expr\<close> itself, spaces
  included.
\<close>

definition performArithmeticCalculation :: "string \<Rightarrow> error + bool \<times> string" where
  "performArithmeticCalculation Expr =
     (if validateArithmeticExpression Expr then
        (case evaluate (buildTree (tokenizeExpression Expr)) of
           Inl e \<Rightarrow> Inl e
         | Inr v \<Rightarrow> Inr (True, FormatFloat (roundFloat v 4)))
      else Inr (False, []))"



section \<open>Properties\<close>

declare build.simps [simp del] natDigits.simps [simp del]

subsection \<open>Every token is a non-empty string\<close>

lemma flushNumber_nonempty: "[] \<notin> set (tokens s) \<Longrightarrow> [] \<notin> set (tokens (flushNumber s))"
  by (simp add: flushNumber_def)

lemma implicitMul_nonempty: "[] \<notin> set (tokens s) \<Longrightarrow> [] \<notin> set (tokens (implicitMul ch s))"
  by (simp add: implicitMul_def Let_def)

lemma tokStep_nonempty:
  assumes "[] \<notin> set (tokens s)"
  shows "[] \<notin> set (tokens (tokStep i ch s))"
proof -
  from assms have f: "[] \<notin> set (tokens (flushNumber s))" by (rule flushNumber_nonempty)
  then have m: "[] \<notin> set (tokens (implicitMul ch (flushNumber s)))" by (rule implicitMul_nonempty)
  from assms f m show ?thesis by (simp add: tokStep_def Let_def)
qed

lemma tokLoop_tokens_nonempty:
  "[] \<notin> set (tokens s) \<Longrightarrow> [] \<notin> set (tokens (tokLoop i expression s))"
  by (induction expression arbitrary: i s) (simp_all add: tokStep_nonempty)

lemma tokenizeExpression_nonempty: "[] \<notin> set (tokenizeExpression expression)"
proof -
  have "[] \<notin> set (tokens tokInit)" by (simp add: tokInit_def)
  then have "[] \<notin> set (tokens (tokLoop 0 expression tokInit))" by (rule tokLoop_tokens_nonempty)
  then show ?thesis
    unfolding tokenizeExpression_def tokenizeRun_def by (rule flushNumber_nonempty)
qed

subsection \<open>The unary minus\<close>

text \<open>
  When the loop meets a \<open>-\<close>, it folds it into the next number exactly in a
  \<open>unaryContext\<close>, which looks at the last operator or parenthesis token and not at
  a number appended since.
\<close>

lemma tokStep_minus:
  "tokStep i (CHR ''-'') s =
     (if unaryContext i (prevToken s)
      then (flushNumber s)\<lparr>number := ''-''\<rparr>
      else (flushNumber s)\<lparr>tokens := tokens (flushNumber s) @ [''-''], prevToken := ''-''\<rparr>)"
  by (simp add: tokStep_def isDigit_def isOperatorChar_def Let_def flushNumber_def)

text \<open>
  C1. The claim: a \<open>-\<close> is folded into the next number exactly at position 0, right
  after \<open>(\<close> or right after another operator, and is a binary operator token right
  after a number. In \<open>8-3\<close> the \<open>-\<close> follows the number \<open>8\<close>, and the tokenizer
  folds it: the tokens are \<open>8\<close> and \<open>-3\<close>, with no operator token.
\<close>

theorem tokenize_minus_after_number:
  "validateArithmeticExpression ''8-3''
   \<and> tokenizeExpression ''8-3'' = [''8'', ''-3'']"
  by code_simp

subsection \<open>Associativity, precedence, parentheses\<close>

text \<open>
  C2. The claim: \<open>8-3-2\<close> gives \<open>3\<close> and \<open>8/4/2\<close> gives \<open>1\<close>. The division chain is
  split at its last \<open>/\<close> and gives \<open>1\<close>. Both \<open>-\<close> of \<open>8-3-2\<close> are folded into the
  numbers after them, the three number tokens hold no operator, the tree is \<open>nil\<close>
  and the result is \<open>0\<close>.
\<close>

theorem compute_left_assoc_chains:
  "tokenizeExpression ''8-3-2'' = [''8'', ''-3'', ''-2'']
   \<and> buildTree (tokenizeExpression ''8-3-2'') = None
   \<and> performArithmeticCalculation ''8-3-2'' = Inr (True, ''0'')
   \<and> buildTree (tokenizeExpression ''8/4/2'')
       = Some (Node ''/''
           (Some (Node ''/'' (Some (Node ''8'' None None)) (Some (Node ''4'' None None))))
           (Some (Node ''2'' None None)))
   \<and> performArithmeticCalculation ''8/4/2'' = Inr (True, ''1'')"
  by code_simp

text \<open>
  The test of line 230 compares the first and the last token of the range only: a
  range of two tokens or more from \<open>(\<close> to \<open>)\<close> is stripped, whether or not the two
  match each other.
\<close>

lemma build_strips_first_last:
  assumes "start < end'" and "toks ! nat start = ''(''" and "toks ! nat end' = '')''"
  shows "build toks start end' = build toks (start + 1) (end' - 1)"
  using assms by (subst build.simps) simp

text \<open>
  C3. The claim: the parentheses of a range are stripped only when its first \<open>(\<close> is
  closed by its last \<open>)\<close>, so that \<open>(1)+(2)\<close> gives \<open>3\<close>. The builder strips whenever
  the first token is \<open>(\<close> and the last is \<open>)\<close>: on \<open>(1)+(2)\<close> it goes into
  \<open>1 ) + ( 2\<close>, finds the \<open>+\<close> at depth \<open>-1\<close>, and returns \<open>nil\<close>; the result is \<open>0\<close>.
\<close>

theorem compute_paren_sum_mis_stripped:
  "tokenizeExpression ''(1)+(2)'' = [''('', ''1'', '')'', ''+'', ''('', ''2'', '')'']
   \<and> build (tokenizeExpression ''(1)+(2)'') 1 5 = None
   \<and> buildTree (tokenizeExpression ''(1)+(2)'') = None
   \<and> performArithmeticCalculation ''(1)+(2)'' = Inr (True, ''0'')"
  by code_simp

text \<open>
  C5. The claim: \<open>2(3)\<close> and \<open>(2)(3)\<close> both give \<open>6\<close>. The tokenizer inserts the \<open>*\<close>
  in both. \<open>2(3)\<close> gives \<open>6\<close>. The tokens of \<open>(2)(3)\<close> begin with \<open>(\<close> and end with
  \<open>)\<close>, the builder strips that unmatched pair as in C3 and returns \<open>nil\<close>; the
  result is \<open>0\<close>.
\<close>

theorem compute_implicit_multiplication:
  "tokenizeExpression ''2(3)'' = [''2'', ''*'', ''('', ''3'', '')'']
   \<and> performArithmeticCalculation ''2(3)'' = Inr (True, ''6'')
   \<and> tokenizeExpression ''(2)(3)'' = [''('', ''2'', '')'', ''*'', ''('', ''3'', '')'']
   \<and> buildTree (tokenizeExpression ''(2)(3)'') = None
   \<and> performArithmeticCalculation ''(2)(3)'' = Inr (True, ''0'')"
  by code_simp


subsection \<open>Division by zero\<close>

text \<open>
  The claim of C4 says that \<open>5/0\<close> comes back from the entry point as
  \<open>valid = false\<close>. The call ends in the panic of line 305 instead.
\<close>

theorem compute_five_by_zero_panics:
  "performArithmeticCalculation ''5/0'' = Inl DivisionByZero"
  by code_simp

text \<open>
  C4, as the code has it. A \<open>/\<close> node with an operand, whose operands are evaluated
  and whose right operand is \<open>0\<close>, panics with \<open>division by zero\<close>: no quotient is
  returned. The entry point does not recover a panic of \<open>evaluate\<close>: on a validated
  input it ends in that panic and returns no pair.
\<close>

theorem division_by_zero_panics:
  "(evaluate l = Inr a \<and> evaluate r = Inr 0 \<and> (l \<noteq> None \<or> r \<noteq> None)
      \<longrightarrow> evaluate (Some (Node ''/'' l r)) = Inl DivisionByZero)
   \<and> (validateArithmeticExpression Expr \<and> evaluate (buildTree (tokenizeExpression Expr)) = Inl e
      \<longrightarrow> performArithmeticCalculation Expr = Inl e)"
proof (intro conjI impI)
  assume h: "evaluate l = Inr a \<and> evaluate r = Inr 0 \<and> (l \<noteq> None \<or> r \<noteq> None)"
  then have el: "evaluate l = Inr a" and er: "evaluate r = Inr 0" by blast+
  show "evaluate (Some (Node ''/'' l r)) = Inl DivisionByZero"
  proof (cases l)
    case None
    with h obtain y where "r = Some y" by auto
    with None el er show ?thesis by simp
  next
    case (Some x)
    with el er show ?thesis by simp
  qed
next
  assume "validateArithmeticExpression Expr \<and> evaluate (buildTree (tokenizeExpression Expr)) = Inl e"
  then show "performArithmeticCalculation Expr = Inl e"
    by (simp add: performArithmeticCalculation_def)
qed

theorem division_by_zero_panics_witness:
  "evaluate (Some (Node ''5'' None None)) = Inr 5
   \<and> evaluate (Some (Node ''0'' None None)) = Inr 0
   \<and> evaluate (Some (Node ''/'' (Some (Node ''5'' None None)) (Some (Node ''0'' None None))))
       = Inl DivisionByZero
   \<and> validateArithmeticExpression ''5/0''
   \<and> evaluate (buildTree (tokenizeExpression ''5/0'')) = Inl DivisionByZero
   \<and> performArithmeticCalculation ''5/0'' = Inl DivisionByZero"
proof -
  note t = division_by_zero_panics [of "Some (Node ''5'' None None)" 5
      "Some (Node ''0'' None None)" "''5/0''" DivisionByZero]
  have a: "evaluate (Some (Node ''5'' None None)) = Inr 5" by code_simp
  have b: "evaluate (Some (Node ''0'' None None)) = Inr 0" by code_simp
  have c: "validateArithmeticExpression ''5/0''" by code_simp
  have d: "evaluate (buildTree (tokenizeExpression ''5/0'')) = Inl DivisionByZero" by code_simp
  from t a b
  have e: "evaluate (Some (Node ''/'' (Some (Node ''5'' None None)) (Some (Node ''0'' None None))))
             = Inl DivisionByZero"
    by blast
  from t c d have f: "performArithmeticCalculation ''5/0'' = Inl DivisionByZero" by blast
  from a b c d e f show ?thesis by blast
qed

subsection \<open>What the validator rejects\<close>

text \<open>
  The claim of C6 lists \<open>*5\<close> among the strings the validator rejects. Go's grammar
  has a unary \<open>*\<close>, \<open>ParseExpr\<close> accepts \<open>*5\<close>, and the entry point returns
  \<open>valid = true\<close> on it.
\<close>

theorem validate_accepts_star_five:
  "validateArithmeticExpression ''*5''
   \<and> performArithmeticCalculation ''*5'' = Inr (True, ''0'')"
  by code_simp

text \<open>
  C6, as the code has it. The validator rejects \<open>1++1\<close>, \<open>(()\<close>, \<open>5*\<close> and the empty
  string, and the entry point returns \<open>valid = false\<close> with an empty result on each.
\<close>

theorem validate_rejects_malformed:
  "\<not> validateArithmeticExpression ''1++1''
   \<and> \<not> validateArithmeticExpression ''(()''
   \<and> \<not> validateArithmeticExpression ''5*''
   \<and> \<not> validateArithmeticExpression []
   \<and> performArithmeticCalculation ''1++1'' = Inr (False, [])
   \<and> performArithmeticCalculation ''(()'' = Inr (False, [])
   \<and> performArithmeticCalculation ''5*'' = Inr (False, [])
   \<and> performArithmeticCalculation [] = Inr (False, [])"
  by code_simp

text \<open>
  The claim of C7 takes every character but the digits, \<open>.\<close>, the operators, the
  parentheses and the space for one that makes the input invalid. The tab is none
  of these; the regular expression lets it through with \<open>\s\<close>, Go's scanner skips
  it, and \<open>1\<close>, tab, \<open>+1\<close> is valid with result \<open>2\<close>.
\<close>

theorem compute_accepts_tab:
  "\<not> isDigit TAB \<and> TAB \<notin> set ''.+-*/() ''
   \<and> performArithmeticCalculation [CHR ''1'', TAB, CHR ''+'', CHR ''1''] = Inr (True, ''2'')"
  by code_simp

text \<open>
  C7, as the code has it. An input with a character that is not a digit, \<open>.\<close>, an
  operator, a parenthesis, the space, the tab, the newline, the form feed or the
  carriage return is invalid: the entry point returns \<open>valid = false\<close> with an
  empty result.
\<close>

theorem compute_rejects_foreign_character:
  assumes "c \<in> set Expr"
    and "\<not> isDigit c"
    and "c \<notin> set ''.+-*/() ''"
    and "c \<notin> {TAB, NL, FF, CR}"
  shows "performArithmeticCalculation Expr = Inr (False, [])"
proof -
  from assms(2-4) have nc: "\<not> reClass c" by (simp add: reClass_def)
  from assms(3) have "c \<noteq> CHR '' ''" by auto
  with assms(1) have "c \<in> set (filter (\<lambda>c. c \<noteq> CHR '' '') Expr)" by simp
  with nc have "\<not> list_all reClass (filter (\<lambda>c. c \<noteq> CHR '' '') Expr)"
    by (auto simp: list_all_iff)
  then have "\<not> validateArithmeticExpression Expr"
    by (simp add: validateArithmeticExpression_def reMatchString_def Let_def)
  then show ?thesis by (simp add: performArithmeticCalculation_def)
qed

theorem compute_rejects_foreign_character_witness:
  "CHR ''a'' \<in> set ''2+a'' \<and> performArithmeticCalculation ''2+a'' = Inr (False, [])"
proof -
  have a: "CHR ''a'' \<in> set ''2+a''" by simp
  have b: "\<not> isDigit (CHR ''a'')" by (simp add: isDigit_def)
  have c: "CHR ''a'' \<notin> set ''.+-*/() ''" by simp
  have d: "CHR ''a'' \<notin> {TAB, NL, FF, CR}" by (simp add: TAB_def NL_def FF_def CR_def)
  from compute_rejects_foreign_character [OF a b c d] a show ?thesis by blast
qed

subsection \<open>Determinism\<close>


subsection \<open>Absent operands\<close>

text \<open>
  C10. \<open>evaluate\<close> gives \<open>0\<close> for \<open>nil\<close>. The validator accepts \<open>8-3\<close>, for which the
  builder returns \<open>nil\<close>, and \<open>+5\<close> and \<open>*5\<close>, for which it returns an operator node
  without left operand; the entry point returns \<open>valid = true\<close> on the three, with
  the results \<open>0\<close>, \<open>0 + 5\<close> and \<open>0 * 5\<close>.
\<close>

theorem missing_operand_is_zero:
  "evaluate None = Inr 0
   \<and> validateArithmeticExpression ''8-3''
   \<and> buildTree (tokenizeExpression ''8-3'') = None
   \<and> performArithmeticCalculation ''8-3'' = Inr (True, ''0'')
   \<and> validateArithmeticExpression ''+5''
   \<and> buildTree (tokenizeExpression ''+5'') = Some (Node ''+'' None (Some (Node ''5'' None None)))
   \<and> performArithmeticCalculation ''+5'' = Inr (True, ''5'')
   \<and> buildTree (tokenizeExpression ''*5'') = Some (Node ''*'' None (Some (Node ''5'' None None)))
   \<and> performArithmeticCalculation ''*5'' = Inr (True, ''0'')"
  by code_simp

end
